theory Spec2Isabelle
  imports Main "HOL-Library.Sublist"
begin

section \<open>Error values\<close>

text \<open>
  A Go \<^verbatim>\<open>error\<close> is modelled by how it was built. \<^verbatim>\<open>errors.New(msg)\<close> and
  \<^verbatim>\<open>fmt.Errorf\<close> without \<^verbatim>\<open>%w\<close> give an error that is just its text;
  \<^verbatim>\<open>fmt.Errorf("prefix: %w", err)\<close> gives an error that wraps \<open>err\<close> and whose text
  is the prefix followed by the text of \<open>err\<close>. \<open>None\<close> of type \<open>go_error option\<close>
  is Go's \<^verbatim>\<open>nil\<close> error.
\<close>

datatype go_error = New string | Wrap string go_error

fun Error :: "go_error \<Rightarrow> string" where
  "Error (New msg) = msg"
| "Error (Wrap pre err) = pre @ Error err"

text \<open>\<^verbatim>\<open>strings.Contains(s, substr)\<close>: \<open>substr\<close> occurs in \<open>s\<close> as a contiguous run.\<close>

fun Contains :: "string \<Rightarrow> string \<Rightarrow> bool" where
  "Contains [] substr = (substr = [])"
| "Contains (c # s) substr = (prefix substr (c # s) \<or> Contains s substr)"


section \<open>The privilege check on POSIX-like systems (build tag \<^verbatim>\<open>!windows\<close>)\<close>

text \<open>
  The process identity the operating system reports: \<^verbatim>\<open>os.Getuid()\<close> and
  \<^verbatim>\<open>os.Geteuid()\<close>, both of Go type \<^verbatim>\<open>int\<close>.
\<close>

record identity =
  Getuid :: int
  Geteuid :: int

definition root_message :: string where
  \<open>root_message =
     ''"root" execution of the PostgreSQL server is not permitted.\<newline>'' @
     ''The server must be started under an unprivileged user ID to prevent\<newline>'' @
     ''possible system security compromise.  See the documentation for\<newline>'' @
     ''more information on how to properly start the server.''\<close>

definition CheckRoot_unix :: "identity \<Rightarrow> string \<Rightarrow> go_error option" where
  "CheckRoot_unix os progname =
     (if Geteuid os = 0 then Some (New root_message)
      else if Getuid os \<noteq> Geteuid os
        then Some (New (progname @ '': real and effective user IDs must match''))
      else None)"


section \<open>The privilege check on Windows (build tag \<^verbatim>\<open>windows\<close>)\<close>

text \<open>
  What the three system calls of the check answer for the current process:
  \<^verbatim>\<open>windows.OpenProcessToken\<close> (\<open>None\<close>: the token handle was obtained),
  \<^verbatim>\<open>windows.CreateWellKnownSid(WinBuiltinAdministratorsSid)\<close> (\<open>None\<close>: the SID was
  built) and \<^verbatim>\<open>token.IsMember(adminSid)\<close> (the membership, or the error).
\<close>

record token_api =
  OpenProcessToken :: "go_error option"
  CreateWellKnownSid :: "go_error option"
  IsMember :: "go_error + bool"

text \<open>
  The system calls the check makes, in order. \<open>Close\<close> is the deferred
  \<^verbatim>\<open>token.Close()\<close>, which runs when the function returns, on every path after the
  handle was obtained.
\<close>

datatype syscall = OpenToken | CreateSid | TestMember | Close

definition administrator_message :: string where
  "administrator_message =
     ''Execution of PostgreSQL by a user with administrative permissions is not\<newline>'' @
     '' permitted.\<newline>'' @
     '' The server must be started under an unprivileged user ID to prevent\<newline>'' @
     '' possible system security compromises.  See the documentation for\<newline>'' @
     '' more information on how to properly start the server''"

text \<open>The program name is ignored on this platform (the parameter is \<^verbatim>\<open>_\<close>).\<close>

definition CheckRoot_windows :: "token_api \<Rightarrow> string \<Rightarrow> syscall list \<times> go_error option" where
  "CheckRoot_windows os progname =
     (case OpenProcessToken os of
        Some err \<Rightarrow> ([OpenToken], Some (Wrap ''failed to check admin privileges: '' err))
      | None \<Rightarrow>
         (case CreateWellKnownSid os of
            Some err \<Rightarrow>
              ([OpenToken, CreateSid, Close], Some (Wrap ''failed to create admin SID: '' err))
          | None \<Rightarrow>
             (case IsMember os of
                Inl err \<Rightarrow>
                  ([OpenToken, CreateSid, TestMember, Close],
                   Some (Wrap ''failed to check admin membership: '' err))
              | Inr isAdmin \<Rightarrow>
                  ([OpenToken, CreateSid, TestMember, Close],
                   if isAdmin then Some (New administrator_message) else None))))"


section \<open>The platform the binary was built for\<close>

text \<open>
  The two files define the same function \<^verbatim>\<open>platform.CheckRoot\<close> under opposite build
  tags, so a binary holds exactly one of them.
\<close>

datatype platform = Unix identity | Windows token_api

fun CheckRoot :: "platform \<Rightarrow> string \<Rightarrow> go_error option" where
  "CheckRoot (Unix os) progname = CheckRoot_unix os progname"
| "CheckRoot (Windows os) progname = snd (CheckRoot_windows os progname)"


section \<open>The command line program (\<^verbatim>\<open>cmd/postgres/main.go\<close>)\<close>

text \<open>
  How a call ends: it returns an error value (\<open>Done\<close>), it panics with a value that
  nothing recovers, or it does not return (the server keeps running).
\<close>

datatype outcome = Done "go_error option" | Panicked string | Forever

text \<open>
  The commands: the five that \<^verbatim>\<open>main.go\<close> declares, the help command that the
  command library adds to a root command with subcommands (the source refers to it by
  its name), and the other commands the library registers by itself, which serve shell
  completion; \<open>libraryCmd n\<close> is the one whose \<^verbatim>\<open>Name()\<close> is \<open>n\<close>.
\<close>

datatype command =
    rootCmd | checkCmd | bootCmd | describeConfigCmd | singleCmd | helpCmd
  | libraryCmd string

text \<open>
  What an observer of the process sees, in order: the two calls out of \<^verbatim>\<open>main.go\<close>
  into the rest of the repository, text on standard output, text on standard error, and
  the texts the command library generates: the usage text of a command (on standard
  error), the help text for a list of words and the shell-completion output of one of
  the library's own commands for its arguments. The wording of these is the library's.
\<close>

datatype event =
    CheckRoot_call string
  | PostmasterMain_call "string list"
  | Stdout string
  | Stderr string
  | Usage command
  | Help "string list"
  | Completion string "string list"

text \<open>
  What the library does with a command line whose first word is one of its own
  shell-completion commands. Either it finds a command of its own that it will execute
  (\<open>Runs\<close>, with the name of that command and its arguments), or it answers by itself
  without executing anything and without calling any hook (\<open>Answers\<close>, with what it
  prints and the error it returns, if any): the help text of a command that has no
  function to run, or an error about the number of arguments.
\<close>

datatype library_answer = Runs string "string list" | Answers "event list" "go_error option"

text \<open>
  Everything \<^verbatim>\<open>main\<close> reads from outside the file: the platform with its process
  identity; \<open>progname\<close>, the value of \<^verbatim>\<open>filepath.Base(os.Args[0])\<close>;
  \<^verbatim>\<open>postmaster.PostmasterMain\<close>, which is not part of the sources at hand and is
  therefore an arbitrary function here; the text of the library's error for a first
  word that names no command (\<^verbatim>\<open>unknown command %q for %q\<close> followed by the library's
  suggestions); and, for the library's own shell-completion commands, what the library
  does with the words after the first (\<open>library\<close>, by the name under which the command
  was called) and what running such a command gives (\<open>libraryRun\<close>, by the name of the
  command that runs).
\<close>

record world =
  host :: platform
  progname :: string
  PostmasterMain :: "string list \<Rightarrow> outcome"
  unknownCommand :: "string \<Rightarrow> string"
  library :: "string \<Rightarrow> string list \<Rightarrow> library_answer"
  libraryRun :: "string \<Rightarrow> string list \<Rightarrow> event list \<times> outcome"

text \<open>\<^verbatim>\<open>cmd.Name()\<close> is the first word of the command's \<^verbatim>\<open>Use\<close> field.\<close>

fun Name :: "command \<Rightarrow> string" where
  "Name rootCmd = ''postgres''"
| "Name checkCmd = ''check''"
| "Name bootCmd = ''boot''"
| "Name describeConfigCmd = ''describe-config''"
| "Name singleCmd = ''single''"
| "Name helpCmd = ''help''"
| "Name (libraryCmd n) = n"

text \<open>
  The names under which \<^verbatim>\<open>rootCmd.Execute()\<close> finds a subcommand of \<open>rootCmd\<close>: the
  four commands of the \<^verbatim>\<open>AddCommand\<close> calls, in their order, then the commands the
  library registers when \<^verbatim>\<open>Execute\<close> starts: help, \<^verbatim>\<open>completion\<close>, and the hidden
  \<^verbatim>\<open>__complete\<close> with its second name \<^verbatim>\<open>__completeNoDesc\<close>.
\<close>

definition commands :: "command list" where
  "commands =
     [checkCmd, bootCmd, describeConfigCmd, singleCmd, helpCmd,
      libraryCmd ''completion'', libraryCmd ''__complete'', libraryCmd ''__completeNoDesc'']"

subsection \<open>The functions attached to the commands\<close>

definition rootCmd_PersistentPreRunE ::
    "world \<Rightarrow> command \<Rightarrow> string list \<Rightarrow> event list \<times> go_error option" where
  "rootCmd_PersistentPreRunE w cmd args =
     (if Name cmd = ''describe-config'' \<or> Name cmd = ''help'' then ([], None)
      else ([CheckRoot_call (progname w)], CheckRoot (host w) (progname w)))"

definition rootCmd_RunE :: "world \<Rightarrow> string list \<Rightarrow> event list \<times> outcome" where
  "rootCmd_RunE w args = ([PostmasterMain_call args], PostmasterMain w args)"

definition checkCmd_Run :: "string list \<Rightarrow> event list \<times> outcome" where
  "checkCmd_Run args = ([], Panicked ''DISPATCH_CHECK: Not implemented yet'')"

definition bootCmd_Run :: "string list \<Rightarrow> event list \<times> outcome" where
  "bootCmd_Run args = ([], Panicked ''DISPATCH_BOOT: Not implemented yet'')"

definition describeConfigCmd_Run :: "string list \<Rightarrow> event list \<times> outcome" where
  "describeConfigCmd_Run args =
     ([Stdout ''GucInfoMain: Listing all configuration parameters...\<newline>''], Done None)"

definition singleCmd_Run :: "string list \<Rightarrow> event list \<times> outcome" where
  "singleCmd_Run args = ([], Panicked ''DISPATCH_SINGLE: Not implemented yet'')"

subsection \<open>The command library, as far as \<^verbatim>\<open>main.go\<close> uses it\<close>

text \<open>
  The library (\<^verbatim>\<open>github.com/spf13/cobra\<close>) is not part of the repository. Its
  \<^verbatim>\<open>Execute\<close> is modelled for command lines made of plain words: a token that is empty
  or begins with \<^verbatim>\<open>-\<close> belongs to the library's flag syntax (\<^verbatim>\<open>--help\<close>,
  \<^verbatim>\<open>--version\<close>, \<^verbatim>\<open>--\<close>, unknown flags), which is left out, and every statement
  about \<open>Execute\<close> and \<open>main\<close> below is made for lists of plain words.
\<close>

definition plain :: "string \<Rightarrow> bool" where
  "plain tok = (case tok of [] \<Rightarrow> False | c # _ \<Rightarrow> c \<noteq> CHR ''-'')"

text \<open>The running of a command: its \<^verbatim>\<open>RunE\<close> if it has one, else its \<^verbatim>\<open>Run\<close>.\<close>

fun Run :: "world \<Rightarrow> command \<Rightarrow> string list \<Rightarrow> event list \<times> outcome" where
  "Run w rootCmd args = rootCmd_RunE w args"
| "Run w checkCmd args = checkCmd_Run args"
| "Run w bootCmd args = bootCmd_Run args"
| "Run w describeConfigCmd args = describeConfigCmd_Run args"
| "Run w singleCmd args = singleCmd_Run args"
| "Run w helpCmd args = ([Help args], Done None)"
| "Run w (libraryCmd n) args = libraryRun w n args"

text \<open>
  Looking the first word up among the subcommands, by exact name. A root command with
  subcommands takes no other first word: that is the library's unknown-command error.
  The commands of \<^verbatim>\<open>main.go\<close> and the help command have no subcommands of their own
  and take the remaining words as their arguments. For one of the library's
  shell-completion commands the library goes on with the remaining words by itself.

  The result is the command that will be executed with its arguments (\<open>Inr\<close>), or the
  reason why none is (\<open>Inl\<close>).
\<close>

datatype refusal = Unknown go_error | Answered "event list" "go_error option"

definition findNext :: "string \<Rightarrow> command option" where
  "findNext next = find (\<lambda>cmd. Name cmd = next) commands"

definition Find :: "world \<Rightarrow> string list \<Rightarrow> refusal + command \<times> string list" where
  "Find w args =
     (case args of
        [] \<Rightarrow> Inr (rootCmd, [])
      | next # rest \<Rightarrow>
         (case findNext next of
            None \<Rightarrow> Inl (Unknown (New (unknownCommand w next)))
          | Some cmd \<Rightarrow>
             (case cmd of
                libraryCmd n \<Rightarrow>
                  (case library w n rest of
                     Runs n' rest' \<Rightarrow> Inr (libraryCmd n', rest')
                   | Answers evs err \<Rightarrow> Inl (Answered evs err))
              | _ \<Rightarrow> Inr (cmd, rest))))"

text \<open>
  Executing the command found: the nearest \<^verbatim>\<open>PersistentPreRunE\<close> on the way up to
  the root (only \<open>rootCmd\<close> has one) is called with the command found; if it returns
  an error the command is not run and the error is returned.
\<close>

definition execute :: "world \<Rightarrow> command \<Rightarrow> string list \<Rightarrow> event list \<times> outcome" where
  "execute w cmd args =
     (case rootCmd_PersistentPreRunE w cmd args of
        (evs, Some err) \<Rightarrow> (evs, Done (Some err))
      | (evs, None) \<Rightarrow> (case Run w cmd args of (evs', out) \<Rightarrow> (evs @ evs', out)))"

text \<open>
  \<^verbatim>\<open>rootCmd.Execute()\<close>: a lookup error is printed with a hint and returned; an error
  from executing the command is printed, followed by the usage text of that command,
  and returned. A panic passes through: the library recovers nothing.
\<close>

definition Execute :: "world \<Rightarrow> string list \<Rightarrow> event list \<times> outcome" where
  \<open>Execute w args =
     (case Find w args of
        Inl (Unknown err) \<Rightarrow>
          ([Stderr (''Error: '' @ Error err @ ''\<newline>''),
            Stderr ''Run 'postgres --help' for usage.\<newline>''],
           Done (Some err))
      | Inl (Answered evs err) \<Rightarrow> (evs, Done err)
      | Inr (cmd, rest) \<Rightarrow>
         (case execute w cmd rest of
            (evs, Done (Some err)) \<Rightarrow>
              (evs @ [Stderr (''Error: '' @ Error err @ ''\<newline>''), Usage cmd], Done (Some err))
          | (evs, out) \<Rightarrow> (evs, out)))\<close>

subsection \<open>\<^verbatim>\<open>main\<close>\<close>

text \<open>
  How the process ends: with an exit status, by an unrecovered panic (the Go runtime
  prints the panic value and a stack trace and exits with status 2), or not at all.
\<close>

datatype ending = Exit int | Crash string | Serving

fun exit_status :: "ending \<Rightarrow> int option" where
  "exit_status (Exit n) = Some n"
| "exit_status (Crash v) = Some 2"
| "exit_status Serving = None"

fun crashed :: "ending \<Rightarrow> bool" where
  "crashed (Crash v) = True"
| "crashed (Exit n) = False"
| "crashed Serving = False"

text \<open>
  \<open>args\<close> is \<^verbatim>\<open>os.Args[1:]\<close>. \<^verbatim>\<open>os.Exit(1)\<close> on an error from \<^verbatim>\<open>Execute\<close>;
  returning from \<^verbatim>\<open>main\<close> is exit status 0.
\<close>

definition main :: "world \<Rightarrow> string list \<Rightarrow> event list \<times> ending" where
  "main w args =
     (case Execute w args of
        (evs, Done (Some err)) \<Rightarrow> (evs, Exit 1)
      | (evs, Done None) \<Rightarrow> (evs, Exit 0)
      | (evs, Panicked v) \<Rightarrow> (evs, Crash v)
      | (evs, Forever) \<Rightarrow> (evs, Serving))"

text \<open>The events that are calls of the server entry point.\<close>

fun is_PostmasterMain_call :: "event \<Rightarrow> bool" where
  "is_PostmasterMain_call (PostmasterMain_call args) = True"
| "is_PostmasterMain_call (CheckRoot_call p) = False"
| "is_PostmasterMain_call (Stdout t) = False"
| "is_PostmasterMain_call (Stderr t) = False"
| "is_PostmasterMain_call (Usage cmd) = False"
| "is_PostmasterMain_call (Help args) = False"
| "is_PostmasterMain_call (Completion n args) = False"

subsection \<open>Sample processes\<close>

text \<open>
  A process started by root, one started by an ordinary user, and one whose token is in
  the administrators group; the server entry point keeps running when it is reached.
  The library's part is the same in the three: \<^verbatim>\<open>completion\<close> followed by exactly
  the name of a shell runs the command of that shell's name, and otherwise prints its
  help, having no function of its own to run; \<^verbatim>\<open>__complete\<close>, under either name,
  runs when it has at least one argument.
\<close>

definition library_text :: "string \<Rightarrow> string" where
  \<open>library_text next = ''unknown command "'' @ next @ ''" for "postgres"''\<close>

definition shells :: "string list" where
  "shells = [''bash'', ''zsh'', ''fish'', ''powershell'']"

definition library_answers :: "string \<Rightarrow> string list \<Rightarrow> library_answer" where
  \<open>library_answers n rest =
     (if n = ''completion'' then
        (case rest of
           [] \<Rightarrow> Answers [Help [''completion'']] None
         | sh # others \<Rightarrow>
            (if sh \<in> set shells then
               (case others of
                  [] \<Rightarrow> Runs sh []
                | extra # _ \<Rightarrow>
                   Answers
                     [Stderr (''Error: unknown command "'' @ extra @
                              ''" for "postgres completion '' @ sh @ ''"\<newline>''),
                      Usage (libraryCmd sh)]
                     (Some (New (''unknown command "'' @ extra @
                                 ''" for "postgres completion '' @ sh @ ''"''))))
             else Answers [Help [''completion'']] None))
      else
        (case rest of
           [] \<Rightarrow>
             Answers
               [Stderr ''Error: requires at least 1 arg(s), only received 0\<newline>'',
                Usage (libraryCmd ''__complete'')]
               (Some (New ''requires at least 1 arg(s), only received 0''))
         | _ \<Rightarrow> Runs ''__complete'' rest))\<close>

definition library_runs :: "string \<Rightarrow> string list \<Rightarrow> event list \<times> outcome" where
  "library_runs n args = ([Completion n args], Done None)"

definition root_process :: world where
  "root_process =
     \<lparr>host = Unix \<lparr>Getuid = 0, Geteuid = 0\<rparr>, progname = ''postgres'',
      PostmasterMain = (\<lambda>args. Forever), unknownCommand = library_text,
      library = library_answers, libraryRun = library_runs\<rparr>"

definition user_process :: world where
  "user_process =
     \<lparr>host = Unix \<lparr>Getuid = 1000, Geteuid = 1000\<rparr>, progname = ''postgres'',
      PostmasterMain = (\<lambda>args. Forever), unknownCommand = library_text,
      library = library_answers, libraryRun = library_runs\<rparr>"

definition administrator_process :: world where
  "administrator_process =
     \<lparr>host = Windows \<lparr>OpenProcessToken = None, CreateWellKnownSid = None,
                      IsMember = Inr True\<rparr>,
      progname = ''postgres.exe'',
      PostmasterMain = (\<lambda>args. Forever), unknownCommand = library_text,
      library = library_answers, libraryRun = library_runs\<rparr>"


section \<open>Properties of the privilege check\<close>

lemma Contains_prefix: "Contains (p @ s) p"
proof (cases "p @ s")
  case Nil
  then show ?thesis by simp
next
  case (Cons c t)
  have "prefix p (p @ s)" by simp
  with Cons show ?thesis by simp
qed

text \<open>
  C1. Whenever the effective user id is 0 (POSIX), or the token is a member of the
  built-in administrators group (Windows), the check fails with the fixed multi-line
  message of that platform, whatever the program name (the empty one included) and
  whatever the real user id.
\<close>

theorem CheckRoot_rejects_superuser:
  "(Geteuid os = 0 \<longrightarrow> CheckRoot_unix os p = Some (New root_message)) \<and>
   (OpenProcessToken tk = None \<and> CreateWellKnownSid tk = None \<and> IsMember tk = Inr True \<longrightarrow>
      snd (CheckRoot_windows tk p) = Some (New administrator_message))"
  by (simp add: CheckRoot_unix_def CheckRoot_windows_def)

theorem CheckRoot_rejects_superuser_witness:
  "Geteuid \<lparr>Getuid = 1000, Geteuid = 0\<rparr> = 0 \<and>
   CheckRoot_unix \<lparr>Getuid = 1000, Geteuid = 0\<rparr> '''' = Some (New root_message) \<and>
   IsMember \<lparr>OpenProcessToken = None, CreateWellKnownSid = None, IsMember = Inr True\<rparr>
     = Inr True \<and>
   snd (CheckRoot_windows
         \<lparr>OpenProcessToken = None, CreateWellKnownSid = None, IsMember = Inr True\<rparr> '''')
     = Some (New administrator_message)"
  using CheckRoot_rejects_superuser
    [of "\<lparr>Getuid = 1000, Geteuid = 0\<rparr>" "''''"
        "\<lparr>OpenProcessToken = None, CreateWellKnownSid = None, IsMember = Inr True\<rparr>"]
  by simp

text \<open>
  C5. On POSIX, when the real and the effective user id differ and the effective one is
  not 0, the check fails with the identity-mismatch error, and the text of the error
  contains the program name it was given.
\<close>

theorem CheckRoot_identity_mismatch:
  assumes "Getuid os \<noteq> Geteuid os" and "Geteuid os \<noteq> 0"
  shows "CheckRoot_unix os p = Some (New (p @ '': real and effective user IDs must match'')) \<and>
         Contains (Error (New (p @ '': real and effective user IDs must match''))) p"
  using assms by (simp add: CheckRoot_unix_def Contains_prefix)

theorem CheckRoot_identity_mismatch_witness:
  "Getuid \<lparr>Getuid = 1000, Geteuid = 70\<rparr> \<noteq> Geteuid \<lparr>Getuid = 1000, Geteuid = 70\<rparr> \<and>
   Geteuid \<lparr>Getuid = 1000, Geteuid = 70\<rparr> \<noteq> 0 \<and>
   CheckRoot_unix \<lparr>Getuid = 1000, Geteuid = 70\<rparr> ''postgres''
     = Some (New ''postgres: real and effective user IDs must match'') \<and>
   Contains ''postgres: real and effective user IDs must match'' ''postgres''"
  using CheckRoot_identity_mismatch [of "\<lparr>Getuid = 1000, Geteuid = 70\<rparr>" "''postgres''"]
  by simp

text \<open>
  C6. On POSIX, when the real and the effective user id are equal and not 0, the check
  succeeds, whatever the program name.
\<close>

theorem CheckRoot_unprivileged_passes:
  assumes "Getuid os = Geteuid os" and "Geteuid os \<noteq> 0"
  shows "CheckRoot_unix os p = None"
  using assms by (simp add: CheckRoot_unix_def)

theorem CheckRoot_unprivileged_passes_witness:
  "Getuid \<lparr>Getuid = 1000, Geteuid = 1000\<rparr> = Geteuid \<lparr>Getuid = 1000, Geteuid = 1000\<rparr> \<and>
   Geteuid \<lparr>Getuid = 1000, Geteuid = 1000\<rparr> \<noteq> 0 \<and>
   CheckRoot_unix \<lparr>Getuid = 1000, Geteuid = 1000\<rparr> ''postgres'' = None"
  using CheckRoot_unprivileged_passes [of "\<lparr>Getuid = 1000, Geteuid = 1000\<rparr>" "''postgres''"]
  by simp

text \<open>
  C7. On Windows, when opening the process token, building the administrators SID or
  the membership test fails, the check returns the error of that step (the cause
  wrapped under the step's own prefix) and so never returns success: not being able to
  check is a failure, like being an administrator.
\<close>

theorem CheckRoot_windows_fails_closed:
  "(OpenProcessToken tk = Some cause \<longrightarrow>
      snd (CheckRoot_windows tk p) = Some (Wrap ''failed to check admin privileges: '' cause)) \<and>
   (OpenProcessToken tk = None \<and> CreateWellKnownSid tk = Some cause \<longrightarrow>
      snd (CheckRoot_windows tk p) = Some (Wrap ''failed to create admin SID: '' cause)) \<and>
   (OpenProcessToken tk = None \<and> CreateWellKnownSid tk = None \<and> IsMember tk = Inl cause \<longrightarrow>
      snd (CheckRoot_windows tk p) = Some (Wrap ''failed to check admin membership: '' cause))"
  by (simp add: CheckRoot_windows_def)

theorem CheckRoot_windows_fails_closed_witness:
  "snd (CheckRoot_windows
         \<lparr>OpenProcessToken = Some (New ''Access is denied.''), CreateWellKnownSid = None,
          IsMember = Inr False\<rparr> ''postgres'')
     = Some (Wrap ''failed to check admin privileges: '' (New ''Access is denied.'')) \<and>
   snd (CheckRoot_windows
         \<lparr>OpenProcessToken = None, CreateWellKnownSid = Some (New ''Access is denied.''),
          IsMember = Inr False\<rparr> ''postgres'')
     = Some (Wrap ''failed to create admin SID: '' (New ''Access is denied.'')) \<and>
   snd (CheckRoot_windows
         \<lparr>OpenProcessToken = None, CreateWellKnownSid = None,
          IsMember = Inl (New ''Access is denied.'')\<rparr> ''postgres'')
     = Some (Wrap ''failed to check admin membership: '' (New ''Access is denied.''))"
  using
    CheckRoot_windows_fails_closed
      [of "\<lparr>OpenProcessToken = Some (New ''Access is denied.''), CreateWellKnownSid = None,
            IsMember = Inr False\<rparr>" "New ''Access is denied.''" "''postgres''"]
    CheckRoot_windows_fails_closed
      [of "\<lparr>OpenProcessToken = None, CreateWellKnownSid = Some (New ''Access is denied.''),
            IsMember = Inr False\<rparr>" "New ''Access is denied.''" "''postgres''"]
    CheckRoot_windows_fails_closed
      [of "\<lparr>OpenProcessToken = None, CreateWellKnownSid = None,
            IsMember = Inl (New ''Access is denied.'')\<rparr>" "New ''Access is denied.''" "''postgres''"]
  by simp


section \<open>Properties of the dispatch\<close>

lemma findNext_commands:
  "findNext ''check'' = Some checkCmd"
  "findNext ''boot'' = Some bootCmd"
  "findNext ''describe-config'' = Some describeConfigCmd"
  "findNext ''single'' = Some singleCmd"
  "findNext ''help'' = Some helpCmd"
  by (simp_all add: findNext_def commands_def)


lemma execute_rejected:
  assumes "Name cmd \<noteq> ''describe-config''" and "Name cmd \<noteq> ''help''"
    and "CheckRoot (host w) (progname w) = Some err"
  shows "execute w cmd args = ([CheckRoot_call (progname w)], Done (Some err))"
  using assms by (simp add: execute_def rootCmd_PersistentPreRunE_def)

lemma execute_passed:
  assumes "Name cmd \<noteq> ''describe-config''" and "Name cmd \<noteq> ''help''"
    and "CheckRoot (host w) (progname w) = None"
  shows "execute w cmd args =
           (CheckRoot_call (progname w) # fst (Run w cmd args), snd (Run w cmd args))"
  using assms by (simp add: execute_def rootCmd_PersistentPreRunE_def split: prod.splits)

lemma execute_describe_config:
  "execute w describeConfigCmd args = describeConfigCmd_Run args"
  by (simp add: execute_def rootCmd_PersistentPreRunE_def split: prod.splits)

text \<open>
  C2. For a command line of plain words that selects a command other than
  \<^verbatim>\<open>describe-config\<close> and \<^verbatim>\<open>help\<close>, a failing privilege check is all that
  happens: the check is called, the text of its error is printed on standard error
  (followed by the library's usage text), the exit status is 1, and the command's own
  function is not run. In particular \<^verbatim>\<open>boot\<close>, \<^verbatim>\<open>check\<close> and \<^verbatim>\<open>single\<close> started
  by root end with the privilege error, not with their panic.
\<close>

theorem privilege_failure_stops_dispatch:
  assumes "list_all plain args"
    and "Find w args = Inr (cmd, rest)"
    and "Name cmd \<noteq> ''describe-config''" and "Name cmd \<noteq> ''help''"
    and "CheckRoot (host w) (progname w) = Some err"
  shows "main w args =
           ([CheckRoot_call (progname w), Stderr (''Error: '' @ Error err @ ''\<newline>''), Usage cmd],
            Exit 1)"
  using assms(2) execute_rejected [OF assms(3,4,5)]
  by (simp add: main_def Execute_def)

theorem privilege_failure_stops_dispatch_witness:
  "main root_process [''boot''] =
     ([CheckRoot_call ''postgres'', Stderr (''Error: '' @ root_message @ ''\<newline>''), Usage bootCmd],
      Exit 1) \<and>
   main root_process [''check''] =
     ([CheckRoot_call ''postgres'', Stderr (''Error: '' @ root_message @ ''\<newline>''), Usage checkCmd],
      Exit 1) \<and>
   main root_process [''single'', ''postgres''] =
     ([CheckRoot_call ''postgres'', Stderr (''Error: '' @ root_message @ ''\<newline>''), Usage singleCmd],
      Exit 1) \<and>
   main administrator_process [] =
     ([CheckRoot_call ''postgres.exe'',
       Stderr (''Error: '' @ administrator_message @ ''\<newline>''), Usage rootCmd],
      Exit 1)"
  using
    privilege_failure_stops_dispatch
      [of "[''boot'']" root_process bootCmd "[]" "New root_message"]
    privilege_failure_stops_dispatch
      [of "[''check'']" root_process checkCmd "[]" "New root_message"]
    privilege_failure_stops_dispatch
      [of "[''single'', ''postgres'']" root_process singleCmd "[''postgres'']" "New root_message"]
    privilege_failure_stops_dispatch
      [of "[]" administrator_process rootCmd "[]" "New administrator_message"]
  by (simp add: plain_def Find_def findNext_commands root_process_def
        administrator_process_def CheckRoot_unix_def CheckRoot_windows_def)

text \<open>
  C8. With no subcommand and a passing privilege check, the root command is selected
  and \<^verbatim>\<open>PostmasterMain\<close> is called exactly once, with the remaining arguments (none,
  on a command line of plain words); \<open>main\<close> then ends the way that call ends. Whatever
  arguments \<open>rest\<close> the library hands to the root command, executing it calls
  \<^verbatim>\<open>PostmasterMain\<close> once, after the check, with exactly \<open>rest\<close>, and ends as that
  call does.
\<close>

theorem default_mode_runs_postmaster:
  assumes "CheckRoot (host w) (progname w) = None"
  shows "Find w [] = Inr (rootCmd, []) \<and>
         filter is_PostmasterMain_call (fst (main w [])) = [PostmasterMain_call []] \<and>
         take 2 (fst (main w [])) = [CheckRoot_call (progname w), PostmasterMain_call []] \<and>
         snd (main w []) =
           (case PostmasterMain w [] of
              Done (Some err) \<Rightarrow> Exit 1 | Done None \<Rightarrow> Exit 0
            | Panicked v \<Rightarrow> Crash v | Forever \<Rightarrow> Serving) \<and>
         execute w rootCmd rest =
           ([CheckRoot_call (progname w), PostmasterMain_call rest], PostmasterMain w rest) \<and>
         filter is_PostmasterMain_call (fst (execute w rootCmd rest))
           = [PostmasterMain_call rest]"
proof -
  have found: "Find w [] = Inr (rootCmd, [])"
    by (simp add: Find_def)
  have forwards: "execute w rootCmd args =
          ([CheckRoot_call (progname w), PostmasterMain_call args], PostmasterMain w args)"
    for args
    using execute_passed [of rootCmd w args] assms by (simp add: rootCmd_RunE_def)
  have at_main: "filter is_PostmasterMain_call (fst (main w [])) = [PostmasterMain_call []] \<and>
         take 2 (fst (main w [])) = [CheckRoot_call (progname w), PostmasterMain_call []] \<and>
         snd (main w []) =
           (case PostmasterMain w [] of
              Done (Some err) \<Rightarrow> Exit 1 | Done None \<Rightarrow> Exit 0
            | Panicked v \<Rightarrow> Crash v | Forever \<Rightarrow> Serving)"
    using found forwards [of "[]"]
    by (cases "PostmasterMain w []")
       (auto simp: main_def Execute_def split: option.splits)
  show ?thesis
    using found at_main forwards [of rest] by simp
qed

theorem default_mode_runs_postmaster_witness:
  "CheckRoot (host user_process) (progname user_process) = None \<and>
   main user_process [] = ([CheckRoot_call ''postgres'', PostmasterMain_call []], Serving) \<and>
   execute user_process rootCmd [''data'', ''5432''] =
     ([CheckRoot_call ''postgres'', PostmasterMain_call [''data'', ''5432'']], Forever)"
proof -
  have ok: "CheckRoot (host user_process) (progname user_process) = None"
    by (simp add: user_process_def CheckRoot_unix_def)
  show ?thesis
    using ok default_mode_runs_postmaster [OF ok, of "[''data'', ''5432'']"]
    by (simp add: user_process_def main_def Execute_def Find_def execute_def
          rootCmd_PersistentPreRunE_def rootCmd_RunE_def)
qed

text \<open>
  The library's own commands are found, not reported as unknown: for an ordinary user,
  \<^verbatim>\<open>completion\<close> alone prints its help without any check, and a shell's completion
  command and \<^verbatim>\<open>__complete\<close> go through the privilege check before they run.
\<close>

lemma library_commands_are_found:
  "main user_process [''completion''] = ([Help [''completion'']], Exit 0)"
  "main user_process [''completion'', ''bash''] =
     ([CheckRoot_call ''postgres'', Completion ''bash'' []], Exit 0)"
  "main user_process [''__complete'', ''che''] =
     ([CheckRoot_call ''postgres'', Completion ''__complete'' [''che'']], Exit 0)"
  by (simp_all add: main_def Execute_def Find_def findNext_def commands_def execute_def
        rootCmd_PersistentPreRunE_def user_process_def library_answers_def library_runs_def
        shells_def CheckRoot_unix_def)



text \<open>
  C10. The function of \<^verbatim>\<open>describe-config\<close> is constant: whatever its arguments (and
  whatever the process), it prints the one line
  \<^verbatim>\<open>GucInfoMain: Listing all configuration parameters...\<close> on standard output and
  returns normally.
\<close>

theorem describe_config_prints_fixed_line:
  "Run w describeConfigCmd args =
     ([Stdout ''GucInfoMain: Listing all configuration parameters...\<newline>''], Done None) \<and>
   describeConfigCmd_Run args = describeConfigCmd_Run args'"
  by (simp add: describeConfigCmd_Run_def)

text \<open>
  C4. \<^verbatim>\<open>describe-config\<close> followed by plain words succeeds for every process, root
  and administrators included: \<^verbatim>\<open>CheckRoot\<close> is not called, the configuration line
  is printed and the exit status is 0.
\<close>

theorem describe_config_skips_privilege_check:
  assumes "list_all plain rest"
  shows "main w (''describe-config'' # rest) =
           ([Stdout ''GucInfoMain: Listing all configuration parameters...\<newline>''], Exit 0)"
  by (simp add: main_def Execute_def Find_def findNext_commands execute_describe_config
        describeConfigCmd_Run_def)

theorem describe_config_skips_privilege_check_witness:
  "CheckRoot (host root_process) (progname root_process) = Some (New root_message) \<and>
   main root_process [''describe-config''] =
     ([Stdout ''GucInfoMain: Listing all configuration parameters...\<newline>''], Exit 0) \<and>
   CheckRoot (host administrator_process) (progname administrator_process)
     = Some (New administrator_message) \<and>
   main administrator_process [''describe-config'', ''all''] =
     ([Stdout ''GucInfoMain: Listing all configuration parameters...\<newline>''], Exit 0)"
  using
    describe_config_skips_privilege_check [of "[]" root_process]
    describe_config_skips_privilege_check [of "[''all'']" administrator_process]
  by (simp add: plain_def root_process_def administrator_process_def CheckRoot_unix_def
        CheckRoot_windows_def)

text \<open>
  C3, amended. \<^verbatim>\<open>check\<close>, \<^verbatim>\<open>boot\<close> and \<^verbatim>\<open>single\<close> followed by plain
  words, with a passing privilege check, end the process by an unrecovered panic whose
  value is the tagged text \<^verbatim>\<open>DISPATCH_<MODE>: Not implemented yet\<close>: nothing is
  printed by the command, the exit status is 2 (not 0), and the failure is the crash of
  the process itself, not an error returned to \<open>main\<close>.
\<close>

theorem reserved_modes_panic:
  assumes "list_all plain rest"
    and "CheckRoot (host w) (progname w) = None"
  shows "main w (''check'' # rest) =
           ([CheckRoot_call (progname w)], Crash ''DISPATCH_CHECK: Not implemented yet'') \<and>
         main w (''boot'' # rest) =
           ([CheckRoot_call (progname w)], Crash ''DISPATCH_BOOT: Not implemented yet'') \<and>
         main w (''single'' # rest) =
           ([CheckRoot_call (progname w)], Crash ''DISPATCH_SINGLE: Not implemented yet'') \<and>
         exit_status (snd (main w (''check'' # rest))) = Some 2 \<and>
         exit_status (snd (main w (''boot'' # rest))) = Some 2 \<and>
         exit_status (snd (main w (''single'' # rest))) = Some 2"
proof -
  have "execute w checkCmd rest =
          ([CheckRoot_call (progname w)], Panicked ''DISPATCH_CHECK: Not implemented yet'')"
    using execute_passed [of checkCmd w rest] assms(2) by (simp add: checkCmd_Run_def)
  moreover have "execute w bootCmd rest =
          ([CheckRoot_call (progname w)], Panicked ''DISPATCH_BOOT: Not implemented yet'')"
    using execute_passed [of bootCmd w rest] assms(2) by (simp add: bootCmd_Run_def)
  moreover have "execute w singleCmd rest =
          ([CheckRoot_call (progname w)], Panicked ''DISPATCH_SINGLE: Not implemented yet'')"
    using execute_passed [of singleCmd w rest] assms(2) by (simp add: singleCmd_Run_def)
  ultimately show ?thesis
    by (simp add: main_def Execute_def Find_def findNext_commands)
qed

theorem reserved_modes_panic_witness:
  "CheckRoot (host user_process) (progname user_process) = None \<and>
   main user_process [''boot'', ''data''] =
     ([CheckRoot_call ''postgres''], Crash ''DISPATCH_BOOT: Not implemented yet'') \<and>
   exit_status (snd (main user_process [''boot'', ''data''])) = Some 2"
proof -
  have ok: "CheckRoot (host user_process) (progname user_process) = None"
    by (simp add: user_process_def CheckRoot_unix_def)
  have words: "list_all plain [''data'']"
    by (simp add: plain_def)
  show ?thesis
    using ok reserved_modes_panic [OF words ok] by (simp add: user_process_def)
qed

text \<open>
  C3, on being distinguishable from a crash: \<^verbatim>\<open>check\<close> run by an ordinary user
  passes the privilege check and then ends the process by a crash, the unrecovered
  panic of its \<^verbatim>\<open>Run\<close> function.
\<close>

theorem reserved_mode_is_a_crash:
  "CheckRoot (host user_process) (progname user_process) = None \<and>
   crashed (snd (main user_process [''check'']))"
  by (simp add: user_process_def CheckRoot_unix_def main_def Execute_def Find_def
        findNext_commands execute_def rootCmd_PersistentPreRunE_def checkCmd_Run_def)

end
